theory Spec2Isabelle
  imports Main
begin

section \<open>Values, exceptions and arena cells\<close>

text \<open>
  The interpreter lives in \<^verbatim>\<open>src/8255/stack.py\<close> (the memory stack),
  \<^verbatim>\<open>src/8255/construct.py\<close> (the program constructor) and
  \<^verbatim>\<open>src/8255/__main__.py\<close> (the engine). Python text is modelled as
  \<^typ>\<open>string\<close>, so the model covers source text and values whose code points are
  below 256; Python integers are \<^typ>\<open>int\<close>.

  Exceptions are values. The engine only asks whether an exception is a
  \<^verbatim>\<open>StackError\<close> (it re-raises those) or anything else (it records the error
  flag), so the two families are kept apart in the type.
\<close>

datatype stack_error =
    NotAllocated string
  | NullDataInOperation
  | ReservedName string
  | MemoryOverflow
  | StackErrorBase

datatype py_error =
    SyntaxError
  | ValueError
  | TypeError
  | OverflowError
  | KeyError
  | IndexError
  | AttributeError
  | UnicodeError
  | ZeroDivisionError
  | EOFError
  | PlainException

datatype exn = Stack stack_error | Builtin py_error

text \<open>
  Run-time values: \<^verbatim>\<open>int\<close>, \<^verbatim>\<open>str\<close>, and the \<^verbatim>\<open>float\<close> that
  \<^verbatim>\<open>operator.truediv\<close> and a negative power return. A float is never stored,
  printed or compared (every write of one fails in \<^verbatim>\<open>serialize\<close>), so it carries
  no payload.
\<close>

datatype val = IntV int | StrV string | FloatV

text \<open>
  A cell of \<^verbatim>\<open>Stack.store\<close>: \<^verbatim>\<open>None\<close>, the marker
  \<^verbatim>\<open>ALLOCATED = b"\x00"\<close>, or an \<^verbatim>\<open>int\<close> byte.
\<close>

datatype cell = Free | ALLOCATED | Byte nat

datatype DataType = INTEGER | STRING | NOTSET

record Allocation =
  alloc_start :: int
  alloc_end :: int
  alloc_size :: int

datatype binding = Register Allocation DataType | ReservedRegister val

record Stack =
  stack_size :: int
  vars :: "string \<rightharpoonup> binding"
  store :: "cell list"

definition Stack_init :: "int \<Rightarrow> Stack" where
  "Stack_init sz =
     \<lparr> stack_size = sz,
       vars = [''slx'' \<mapsto> ReservedRegister (IntV 0),
               ''sly'' \<mapsto> ReservedRegister (IntV 0),
               ''slz'' \<mapsto> ReservedRegister (IntV 0)],
       store = replicate (nat sz) Free \<rparr>"

section \<open>Python slices\<close>

text \<open>
  \<^verbatim>\<open>xs[a:b]\<close> never raises: a negative bound counts from the end and both bounds
  are clamped to \<open>[0, len]\<close>. An assignment \<^verbatim>\<open>xs[a:b] = ys\<close> replaces the
  selected cells (none when the upper bound is below the lower one) by all of \<open>ys\<close>.
\<close>

definition slice_index :: "nat \<Rightarrow> int \<Rightarrow> nat" where
  "slice_index n i =
     (let j = (if i < 0 then i + int n else i)
      in if j < 0 then 0 else if j > int n then n else nat j)"

definition slice_get :: "'a list \<Rightarrow> int \<Rightarrow> int \<Rightarrow> 'a list" where
  "slice_get xs a b =
     (let lo = slice_index (length xs) a; hi = slice_index (length xs) b
      in take (hi - lo) (drop lo xs))"

definition slice_set :: "'a list \<Rightarrow> int \<Rightarrow> int \<Rightarrow> 'a list \<Rightarrow> 'a list" where
  "slice_set xs a b ys =
     (let lo = slice_index (length xs) a; hi = slice_index (length xs) b
      in take lo xs @ ys @ drop (max lo hi) xs)"

section \<open>Serialisation\<close>

text \<open>
  \<^verbatim>\<open>int.to_bytes(size, signed=True)\<close> and \<^verbatim>\<open>int.from_bytes(..., signed=True)\<close>
  with the default big-endian order. A negative length is a \<^verbatim>\<open>ValueError\<close>; a
  value outside the signed range of the width is an \<^verbatim>\<open>OverflowError\<close> (at width
  0 CPython accepts \<open>0\<close> and \<open>-1\<close>).
\<close>

fun be_bytes :: "nat \<Rightarrow> nat \<Rightarrow> nat list" where
  "be_bytes 0 u = []"
| "be_bytes (Suc n) u = be_bytes n (u div 256) @ [u mod 256]"

definition from_be :: "nat list \<Rightarrow> nat" where
  "from_be bs = foldl (\<lambda>acc b. acc * 256 + b) 0 bs"

definition fits_signed :: "int \<Rightarrow> nat \<Rightarrow> bool" where
  "fits_signed v n =
     (if n = 0 then v = 0 \<or> v = -1
      else - (2 ^ (8 * n - 1)) \<le> v \<and> v < 2 ^ (8 * n - 1))"

definition to_bytes :: "int \<Rightarrow> int \<Rightarrow> exn + nat list" where
  "to_bytes v sz =
     (if sz < 0 then Inl (Builtin ValueError)
      else if \<not> fits_signed v (nat sz) then Inl (Builtin OverflowError)
      else Inr (be_bytes (nat sz) (nat (v mod 2 ^ (8 * nat sz)))))"

definition from_bytes :: "nat list \<Rightarrow> int" where
  "from_bytes bs =
     (let u = int (from_be bs); n = length bs
      in if n > 0 \<and> u \<ge> 2 ^ (8 * n - 1) then u - 2 ^ (8 * n) else u)"

definition is_ascii :: "string \<Rightarrow> bool" where
  "is_ascii s = (\<forall>c \<in> set s. of_char c < (128::nat))"

definition serialize :: "val \<Rightarrow> int \<Rightarrow> exn + nat list" where
  "serialize v sz =
     (case v of
        IntV i \<Rightarrow> to_bytes i sz
      | StrV s \<Rightarrow>
          if \<not> is_ascii s then Inl (Builtin UnicodeError)
          else Inr (map of_char s @ replicate (nat (sz - int (length s))) 0)
      | FloatV \<Rightarrow> Inl (Builtin AttributeError))"

section \<open>The arena: allocate, write, get, drop\<close>

text \<open>
  The scan of \<^verbatim>\<open>Stack.allocate\<close>: \<open>i\<close> is the index of the cell under the
  cursor, \<open>count\<close> and \<open>start_index\<close> are the loop's two variables. It returns the
  start of the run at which \<open>count\<close> reaches the requested size, or \<open>None\<close> when
  the loop runs off the end of the arena.
\<close>

fun allocate_scan :: "int \<Rightarrow> cell list \<Rightarrow> nat \<Rightarrow> int \<Rightarrow> int \<Rightarrow> int option" where
  "allocate_scan sz [] i count start_index = None"
| "allocate_scan sz (item # rest) i count start_index =
     (if item = Free then
        (let start_index' = (if count = 0 then int i else start_index);
             count' = count + 1
         in if count' = sz then Some start_index'
            else allocate_scan sz rest (Suc i) count' start_index')
      else allocate_scan sz rest (Suc i) 0 start_index)"

definition allocate :: "int \<Rightarrow> Stack \<Rightarrow> (exn + Allocation) \<times> Stack" where
  "allocate sz st =
     (case allocate_scan sz (store st) 0 0 (-1) of
        None \<Rightarrow> (Inl (Stack MemoryOverflow), st)
      | Some s \<Rightarrow>
          (Inr \<lparr> alloc_start = s, alloc_end = s + sz - 1, alloc_size = sz \<rparr>,
           st \<lparr> store := slice_set (store st) s (s + sz) (replicate (nat sz) ALLOCATED) \<rparr>))"

definition write_alloc :: "Allocation \<Rightarrow> val \<Rightarrow> Stack \<Rightarrow> exn option \<times> Stack" where
  "write_alloc a v st =
     (case serialize v (alloc_size a) of
        Inl e \<Rightarrow> (Some e, st)
      | Inr serialized_value \<Rightarrow>
          if int (length serialized_value) > alloc_size a then (Some (Stack MemoryOverflow), st)
          else if alloc_end a - 1 > stack_size st then (Some (Stack MemoryOverflow), st)
          else (None,
                st \<lparr> store := slice_set (store st) (alloc_start a) (alloc_end a + 1)
                                 (map Byte serialized_value) \<rparr>))"

text \<open>
  \<^verbatim>\<open>bytes(...)\<close> of a list holding the \<^verbatim>\<open>ALLOCATED\<close> marker is a
  \<^verbatim>\<open>TypeError\<close>; the marker is truthy, the byte \<open>0\<close> is not.
\<close>

fun cell_bytes :: "cell list \<Rightarrow> nat list option" where
  "cell_bytes [] = Some []"
| "cell_bytes (Byte b # cs) = map_option ((#) b) (cell_bytes cs)"
| "cell_bytes (c # cs) = None"

definition truthy :: "cell \<Rightarrow> bool" where
  "truthy c = (c \<noteq> Byte 0)"

definition decode_ascii :: "nat list \<Rightarrow> exn + string" where
  "decode_ascii bs =
     (if \<forall>b \<in> set bs. b < 128 then Inr (map char_of bs) else Inl (Builtin UnicodeError))"

definition get :: "Allocation \<Rightarrow> DataType \<Rightarrow> Stack \<Rightarrow> exn + val" where
  "get a cast st =
     (let value = slice_get (store st) (alloc_start a) (alloc_end a + 1)
      in if Free \<in> set value then Inl (Stack NullDataInOperation)
         else case cast of
           INTEGER \<Rightarrow>
             (case cell_bytes value of
                None \<Rightarrow> Inl (Builtin TypeError)
              | Some bs \<Rightarrow> Inr (IntV (from_bytes bs)))
         | STRING \<Rightarrow>
             (case cell_bytes (filter truthy value) of
                None \<Rightarrow> Inl (Builtin TypeError)
              | Some bs \<Rightarrow> map_sum id StrV (decode_ascii bs))
         | NOTSET \<Rightarrow> Inl (Stack StackErrorBase))"

definition drop_alloc :: "Allocation \<Rightarrow> Stack \<Rightarrow> Stack" where
  "drop_alloc a st =
     st \<lparr> store := slice_set (store st) (alloc_start a) (alloc_end a + 1)
                      (replicate (nat (alloc_size a)) Free) \<rparr>"


section \<open>The variable layer\<close>

definition allocate_variable :: "string \<Rightarrow> int \<Rightarrow> Stack \<Rightarrow> exn option \<times> Stack" where
  "allocate_variable name sz st =
     (if name \<in> dom (vars st) then (Some (Builtin ValueError), st)
      else case allocate sz st of
             (Inl e, st') \<Rightarrow> (Some e, st')
           | (Inr a, st') \<Rightarrow> (None, st' \<lparr> vars := (vars st')(name \<mapsto> Register a NOTSET) \<rparr>))"

text \<open>
  \<^verbatim>\<open>write_variable\<close> sets the datatype before it calls \<^verbatim>\<open>write\<close>, so the new
  datatype stays when the write raises.
\<close>

definition write_variable :: "string \<Rightarrow> val \<Rightarrow> bool \<Rightarrow> Stack \<Rightarrow> exn option \<times> Stack" where
  "write_variable name v reserved st =
     (case vars st name of
        None \<Rightarrow> (Some (Stack (NotAllocated name)), st)
      | Some (ReservedRegister old) \<Rightarrow>
          if \<not> reserved then (Some (Stack (ReservedName name)), st)
          else (None, st \<lparr> vars := (vars st)(name \<mapsto> ReservedRegister v) \<rparr>)
      | Some (Register a dt) \<Rightarrow>
          write_alloc a v
            (st \<lparr> vars := (vars st)(name \<mapsto>
                     Register a (case v of IntV i \<Rightarrow> INTEGER | _ \<Rightarrow> STRING)) \<rparr>))"

definition get_variable :: "string \<Rightarrow> Stack \<Rightarrow> exn + val" where
  "get_variable name st =
     (case vars st name of
        None \<Rightarrow> Inl (Stack (NotAllocated name))
      | Some (ReservedRegister v) \<Rightarrow> Inr v
      | Some (Register a dt) \<Rightarrow>
          if dt = NOTSET then Inl (Stack NullDataInOperation) else get a dt st)"

definition drop_variable :: "string \<Rightarrow> Stack \<Rightarrow> exn option \<times> Stack" where
  "drop_variable name st =
     (case vars st name of
        None \<Rightarrow> (Some (Stack (NotAllocated name)), st)
      | Some (ReservedRegister v) \<Rightarrow> (Some (Stack (ReservedName name)), st)
      | Some (Register a dt) \<Rightarrow>
          (None, (drop_alloc a st) \<lparr> vars := (vars st)(name := None) \<rparr>))"

section \<open>Text: character classes, conversions, regular expressions\<close>

text \<open>
  The tables of \<^verbatim>\<open>str.isnumeric\<close>, and of \<^verbatim>\<open>\w\<close>, \<^verbatim>\<open>\d\<close> and
  \<^verbatim>\<open>\s\<close> in a \<^verbatim>\<open>str\<close> pattern, for code points below 256.
\<close>

definition code :: "char \<Rightarrow> nat" where
  "code c = of_char c"

definition is_digit :: "char \<Rightarrow> bool" where
  "is_digit c = (48 \<le> code c \<and> code c \<le> 57)"

definition isnumeric_char :: "char \<Rightarrow> bool" where
  "isnumeric_char c = (is_digit c \<or> code c \<in> {178, 179, 185, 188, 189, 190})"

definition isnumeric :: "string \<Rightarrow> bool" where
  "isnumeric s = (s \<noteq> [] \<and> list_all isnumeric_char s)"

definition is_word_char :: "char \<Rightarrow> bool" where
  "is_word_char c =
     (let k = code c
      in (48 \<le> k \<and> k \<le> 57) \<or> (65 \<le> k \<and> k \<le> 90) \<or> k = 95 \<or> (97 \<le> k \<and> k \<le> 122)
         \<or> k \<in> {170, 178, 179, 181, 185, 186, 188, 189, 190}
         \<or> (192 \<le> k \<and> k \<le> 214) \<or> (216 \<le> k \<and> k \<le> 246) \<or> 248 \<le> k)"

definition is_space :: "char \<Rightarrow> bool" where
  "is_space c =
     (let k = code c
      in (9 \<le> k \<and> k \<le> 13) \<or> (28 \<le> k \<and> k \<le> 32) \<or> k = 133 \<or> k = 160)"

text \<open>
  \<^verbatim>\<open>int(text)\<close>: surrounding white space is dropped (here the separators 28 to 31
  do not count), one sign is allowed, the digits may be separated by single underscores,
  and more than 4300 digits are refused (CPython's default limit for the conversion
  between \<^verbatim>\<open>int\<close> and \<^verbatim>\<open>str\<close>, which also applies to \<^verbatim>\<open>str(int)\<close>).
\<close>

definition is_int_space :: "char \<Rightarrow> bool" where
  "is_int_space c =
     (let k = code c in (9 \<le> k \<and> k \<le> 13) \<or> k = 32 \<or> k = 133 \<or> k = 160)"

definition strip_chars :: "(char \<Rightarrow> bool) \<Rightarrow> string \<Rightarrow> string" where
  "strip_chars p s = rev (dropWhile p (rev (dropWhile p s)))"

fun digit_groups :: "string \<Rightarrow> bool \<Rightarrow> nat list \<Rightarrow> nat list option" where
  "digit_groups [] after_underscore acc = (if after_underscore then None else Some acc)"
| "digit_groups (c # cs) after_underscore acc =
     (if is_digit c then digit_groups cs False (acc @ [code c - 48])
      else if c = CHR ''_'' \<and> \<not> after_underscore then digit_groups cs True acc
      else None)"

definition max_str_digits :: nat where
  "max_str_digits = 4300"

definition py_int :: "string \<Rightarrow> exn + int" where
  "py_int s =
     (let t = strip_chars is_int_space s;
          negative = (t \<noteq> [] \<and> hd t = CHR ''-'');
          body = (if t \<noteq> [] \<and> (hd t = CHR ''-'' \<or> hd t = CHR ''+'') then tl t else t)
      in case digit_groups body True [] of
           None \<Rightarrow> Inl (Builtin ValueError)
         | Some ds \<Rightarrow>
             if length ds > max_str_digits then Inl (Builtin ValueError)
             else let v = foldl (\<lambda>a d. a * 10 + int d) 0 ds
                  in Inr (if negative then - v else v))"

fun decimal :: "nat \<Rightarrow> nat \<Rightarrow> string" where
  "decimal 0 n = []"
| "decimal (Suc fuel) n =
     (if n < 10 then [char_of (48 + n)]
      else decimal fuel (n div 10) @ [char_of (48 + n mod 10)])"

text \<open>
  \<open>decimal (Suc n) n\<close> has enough fuel for every digit of \<open>n\<close>. No float is ever
  read back from a register (the only privileged write stores 0 or 1), so the text of
  one is a placeholder that no run reaches; the same holds for \<open>int(float)\<close>.
\<close>

definition py_str :: "val \<Rightarrow> exn + string" where
  "py_str v =
     (case v of
        IntV i \<Rightarrow>
          (let ds = decimal (Suc (nat \<bar>i\<bar>)) (nat \<bar>i\<bar>)
           in if length ds > max_str_digits then Inl (Builtin ValueError)
              else Inr (if i < 0 then CHR ''-'' # ds else ds))
      | StrV s \<Rightarrow> Inr s
      | FloatV \<Rightarrow> Inr ''float'')"

definition py_int_of :: "val \<Rightarrow> exn + int" where
  "py_int_of v = (case v of IntV i \<Rightarrow> Inr i | StrV s \<Rightarrow> py_int s | FloatV \<Rightarrow> Inr 0)"

text \<open>
  \<^verbatim>\<open>re.match\<close> anchors at the start of the token only: what follows the match is
  ignored. \<^verbatim>\<open>variable_regex\<close> is \<^verbatim>\<open>\&(\w+)\<close>, \<^verbatim>\<open>allocation_regex\<close> is
  \<^verbatim>\<open>:\[(\d+)\]\<close>.
\<close>

datatype regex = variable_regex | allocation_regex

definition handle_variable :: "regex \<Rightarrow> string \<Rightarrow> exn + string" where
  "handle_variable r variable =
     (case r of
        variable_regex \<Rightarrow>
          (case variable of
             c # rest \<Rightarrow>
               if c = CHR ''&'' \<and> takeWhile is_word_char rest \<noteq> []
               then Inr (takeWhile is_word_char rest) else Inl (Builtin SyntaxError)
           | [] \<Rightarrow> Inl (Builtin SyntaxError))
      | allocation_regex \<Rightarrow>
          (case variable of
             c # d # rest \<Rightarrow>
               if c = CHR '':'' \<and> d = CHR ''['' \<and> takeWhile is_digit rest \<noteq> []
                  \<and> take 1 (dropWhile is_digit rest) = '']''
               then Inr (takeWhile is_digit rest) else Inl (Builtin SyntaxError)
           | _ \<Rightarrow> Inl (Builtin SyntaxError)))"

text \<open>
  \<^verbatim>\<open>re.findall(r"(\$\w+)", value)\<close> and \<^verbatim>\<open>str.replace\<close> (every occurrence, left
  to right, of a non-empty text).
\<close>

function sub_matches :: "string \<Rightarrow> string list" where
  "sub_matches [] = []"
| "sub_matches (c # cs) =
     (if c = CHR ''$'' \<and> takeWhile is_word_char cs \<noteq> []
      then (c # takeWhile is_word_char cs) # sub_matches (dropWhile is_word_char cs)
      else sub_matches cs)"
  by pat_completeness auto
termination
  by (relation "measure length") (auto simp add: length_dropWhile_le less_Suc_eq_le)

function replace_all :: "string \<Rightarrow> string \<Rightarrow> string \<Rightarrow> string" where
  "replace_all old new [] = []"
| "replace_all old new (c # cs) =
     (if old \<noteq> [] \<and> take (length old) (c # cs) = old
      then new @ replace_all old new (drop (length old) (c # cs))
      else c # replace_all old new cs)"
  by pat_completeness auto
termination
  by (relation "measure (\<lambda>(old, new, s). length s)") (auto simp add: neq_Nil_conv)

fun substitute :: "Stack \<Rightarrow> string list \<Rightarrow> string \<Rightarrow> exn + string" where
  "substitute st [] value = Inr value"
| "substitute st (variable # rest) value =
     (case get_variable (tl variable) st of
        Inl e \<Rightarrow> Inl e
      | Inr v \<Rightarrow>
          (case py_str v of
             Inl e \<Rightarrow> Inl e
           | Inr t \<Rightarrow> substitute st rest (replace_all variable t value)))"

text \<open>
  The last step of \<^verbatim>\<open>process_value\<close>,
  \<^verbatim>\<open>value.encode("latin-1", "backslashreplace").decode("unicode-escape")\<close>, is
  CPython's codec. It is a parameter \<open>unicode_escape\<close> of the engine (\<open>None\<close> when the
  codec raises), so every statement about the engine holds for whatever the codec does.
\<close>

type_synonym codec = "string \<Rightarrow> string option"

definition process_value :: "codec \<Rightarrow> Stack \<Rightarrow> string \<Rightarrow> exn + val" where
  "process_value unicode_escape st value =
     (case value of
        [] \<Rightarrow> Inl (Builtin IndexError)
      | c # cs \<Rightarrow>
          if c = CHR ''&'' then
            (if cs = [] then Inl (Builtin SyntaxError) else get_variable cs st)
          else if isnumeric value then map_sum id IntV (py_int value)
          else if \<not> (c = CHR 0x22 \<and> last value = CHR 0x22 \<and> length value > 1)
            then Inl (Builtin SyntaxError)
          else
            (let stripped = strip_chars (\<lambda>x. x = CHR 0x22) value
             in case substitute st (sub_matches stripped) stripped of
                  Inl e \<Rightarrow> Inl e
                | Inr text \<Rightarrow>
                    (case unicode_escape text of
                       None \<Rightarrow> Inl (Builtin UnicodeError)
                     | Some decoded \<Rightarrow> Inr (StrV decoded))))"


section \<open>The program constructor\<close>

record Program =
  program_name :: "string option"
  byte_size :: int
  lines :: "string list list"
  labels :: "string \<rightharpoonup> nat"

text \<open>
  \<^verbatim>\<open>re.findall(LINE_REGEX, line)\<close> with \<^verbatim>\<open>LINE_REGEX = "[^"]*"|\S+\<close>: at a
  double quote that has a closing quote the token runs to that quote; otherwise a token
  is a longest run without white space.
\<close>

function tokenize :: "string \<Rightarrow> string list" where
  "tokenize [] = []"
| "tokenize (c # cs) =
     (if c = CHR 0x22 \<and> CHR 0x22 \<in> set cs
      then (c # takeWhile (\<lambda>x. x \<noteq> CHR 0x22) cs @ [CHR 0x22])
             # tokenize (tl (dropWhile (\<lambda>x. x \<noteq> CHR 0x22) cs))
      else if is_space c then tokenize cs
      else takeWhile (\<lambda>x. \<not> is_space x) (c # cs)
             # tokenize (dropWhile (\<lambda>x. \<not> is_space x) cs))"
  by pat_completeness auto
termination
proof (relation "measure length")
  show "wf (measure (length :: string \<Rightarrow> nat))" by simp
next
  fix c :: char and cs :: string
  have "length (tl (dropWhile (\<lambda>x. x \<noteq> CHR 0x22) cs)) \<le> length cs"
    using length_dropWhile_le[of "\<lambda>x. x \<noteq> CHR 0x22" cs] by simp
  then show "(tl (dropWhile (\<lambda>x. x \<noteq> CHR 0x22) cs), c # cs) \<in> measure length" by simp
next
  fix c :: char and cs :: string
  show "(cs, c # cs) \<in> measure length" by simp
next
  fix c :: char and cs :: string
  have "length (dropWhile (\<lambda>x. \<not> is_space x) cs) \<le> length cs"
    by (rule length_dropWhile_le)
  then show "(dropWhile (\<lambda>x. \<not> is_space x) cs, c # cs) \<in> measure length" by simp
qed

definition process_lines :: "string list \<Rightarrow> string list list" where
  "process_lines ls =
     map (\<lambda>l. let line = tokenize l
              in if ''//'' \<in> set line then takeWhile (\<lambda>t. t \<noteq> ''//'') line else line) ls"

definition SIZE_SYSTEM_MAPPING :: "string \<rightharpoonup> int" where
  "SIZE_SYSTEM_MAPPING =
     [''BINARY'' \<mapsto> 1024, ''BIN'' \<mapsto> 1024, ''DECIMAL'' \<mapsto> 1000, ''DEC'' \<mapsto> 1000]"

text \<open>
  \<^verbatim>\<open>re.match(r"(1|2|4|8|16|32|64|128)K", size)\<close>: the group is the one alternative
  that is followed by \<open>K\<close> at the start of the token.
\<close>

definition size_match :: "string \<Rightarrow> string option" where
  "size_match sz =
     find (\<lambda>n. take (length n + 1) sz = n @ ''K'')
       [''1'', ''2'', ''4'', ''8'', ''16'', ''32'', ''64'', ''128'']"

text \<open>
  The state of the loop of \<^verbatim>\<open>construct_program\<close>: the program under construction,
  \<^verbatim>\<open>in_code_block\<close> and \<^verbatim>\<open>last_line\<close>. The cases are tried in the order of the
  source's \<^verbatim>\<open>match\<close>; \<^verbatim>\<open>processed_lines[index - 1]\<close> at index 0 is the last line.
\<close>

record construction =
  program :: Program
  in_code_block :: bool
  last_line :: int

definition numbered_line ::
  "string list list \<Rightarrow> nat \<Rightarrow> string \<Rightarrow> string list \<Rightarrow> construction \<Rightarrow> exn + construction" where
  "numbered_line processed_lines index line_number code_line c =
     (if \<not> isnumeric line_number then Inl (Builtin SyntaxError)
      else if processed_lines !
                (if index = 0 then length processed_lines - 1 else index - 1) \<noteq> [''START'']
              \<and> \<not> in_code_block c
        then Inl (Builtin SyntaxError)
      else case py_int line_number of
             Inl e \<Rightarrow> Inl e
           | Inr n \<Rightarrow>
               if n \<le> last_line c \<or> n mod 10 \<noteq> 0 then Inl (Builtin SyntaxError)
               else
                 (let p = program c;
                      p' = (case code_line of
                              [op, label_name] \<Rightarrow>
                                if op = ''lbl''
                                then p \<lparr> labels := (labels p)(label_name \<mapsto> length (lines p)) \<rparr>
                                else p
                            | _ \<Rightarrow> p)
                  in Inr (c \<lparr> last_line := n, in_code_block := True,
                              program := p' \<lparr> lines := lines p' @ [code_line] \<rparr> \<rparr>)))"

definition size_directive :: "string \<Rightarrow> string \<Rightarrow> construction \<Rightarrow> exn + construction" where
  "size_directive sz system c =
     (case size_match sz of
        None \<Rightarrow> Inl (Builtin SyntaxError)
      | Some digits \<Rightarrow>
          (case SIZE_SYSTEM_MAPPING system of
             None \<Rightarrow> Inl (Builtin SyntaxError)
           | Some factor \<Rightarrow>
               (case py_int digits of
                  Inl e \<Rightarrow> Inl e
                | Inr n \<Rightarrow> Inr (c \<lparr> program := (program c) \<lparr> byte_size := n * factor \<rparr> \<rparr>))))"

definition construct_line ::
  "string list list \<Rightarrow> nat \<Rightarrow> string list \<Rightarrow> construction \<Rightarrow> exn + construction" where
  "construct_line processed_lines index line c =
     (if line = [''START''] \<and> \<not> in_code_block c then Inr c
      else if length line = 2 \<and> hd line = ''PROGRAM'' \<and> \<not> in_code_block c
        then Inr (c \<lparr> program := (program c)
                        \<lparr> program_name := Some (strip_chars (\<lambda>x. x = CHR 0x22) (line ! 1)) \<rparr> \<rparr>)
      else if length line = 3 \<and> hd line = ''SIZE'' \<and> \<not> in_code_block c
        then size_directive (line ! 1) (line ! 2) c
      else if line = [''.''] then
        (if \<not> in_code_block c then Inl (Builtin SyntaxError)
         else if index \<noteq> length processed_lines - 1 then Inl (Builtin SyntaxError)
         else Inr c)
      else case line of
             line_number # code_line \<Rightarrow>
               numbered_line processed_lines index line_number code_line c
           | [] \<Rightarrow> Inl (Builtin PlainException))"

fun construct_loop ::
  "string list list \<Rightarrow> nat \<Rightarrow> string list list \<Rightarrow> construction \<Rightarrow> exn + construction" where
  "construct_loop processed_lines index [] c = Inr c"
| "construct_loop processed_lines index (line # rest) c =
     (case construct_line processed_lines index line c of
        Inl e \<Rightarrow> Inl e
      | Inr c' \<Rightarrow> construct_loop processed_lines (Suc index) rest c')"

definition initial_construction :: construction where
  "initial_construction =
     \<lparr> program = \<lparr> program_name = None, byte_size = 8192, lines = [], labels = Map.empty \<rparr>,
       in_code_block = False, last_line = 0 \<rparr>"

definition construct_tokens :: "string list list \<Rightarrow> exn + Program" where
  "construct_tokens processed_lines =
     map_sum id program (construct_loop processed_lines 0 processed_lines initial_construction)"

definition construct_program :: "string list \<Rightarrow> exn + Program" where
  "construct_program ls = construct_tokens (process_lines ls)"


section \<open>The engine\<close>

text \<open>
  The state of \<^verbatim>\<open>process_file\<close>'s loop, with the console made explicit: \<open>stdin\<close>
  holds the lines \<^verbatim>\<open>input\<close> will return (none left is \<^verbatim>\<open>EOFError\<close>),
  \<open>stdout\<close> collects what \<^verbatim>\<open>print\<close> and the prompt of \<^verbatim>\<open>input\<close> write.
\<close>

record machine =
  stack :: Stack
  current_line :: nat
  comparison_result :: "string option"
  stdin :: "string list"
  stdout :: "string list"

text \<open>
  How the body of the \<^verbatim>\<open>try\<close> ends: it runs to its end, it leaves by
  \<^verbatim>\<open>continue\<close> (a taken jump), or it raises.
\<close>

datatype outcome = Completed | Jumped | Raised exn

text \<open>
  The functions of the \<^verbatim>\<open>operator\<close> module on the operands an instruction can
  resolve. \<^verbatim>\<open>truediv\<close> and a negative power give a float, or raise when an operand
  or the quotient is beyond the range of a double (from \<open>2^1024 - 2^970\<close> on, which
  rounds to infinity).
\<close>

definition float_limit :: int where
  "float_limit = 2 ^ 1024 - 2 ^ 970"

definition py_operator :: "string \<Rightarrow> val \<Rightarrow> val \<Rightarrow> exn + val" where
  "py_operator operator_type a b =
     (case (a, b) of
        (IntV x, IntV y) \<Rightarrow>
          if operator_type = ''add'' then Inr (IntV (x + y))
          else if operator_type = ''sub'' then Inr (IntV (x - y))
          else if operator_type = ''mul'' then Inr (IntV (x * y))
          else if operator_type = ''div'' then
            (if y = 0 then Inl (Builtin ZeroDivisionError)
             else if \<bar>x\<bar> \<ge> float_limit * \<bar>y\<bar> then Inl (Builtin OverflowError)
             else Inr FloatV)
          else
            (if 0 \<le> y then Inr (IntV (x ^ nat y))
             else if \<bar>x\<bar> \<ge> float_limit \<or> \<bar>y\<bar> \<ge> float_limit then Inl (Builtin OverflowError)
             else if x = 0 then Inl (Builtin ZeroDivisionError)
             else Inr FloatV)
      | (StrV x, StrV y) \<Rightarrow>
          if operator_type = ''add'' then Inr (StrV (x @ y)) else Inl (Builtin TypeError)
      | (StrV x, IntV y) \<Rightarrow>
          if operator_type = ''mul'' then Inr (StrV (concat (replicate (nat y) x)))
          else Inl (Builtin TypeError)
      | (IntV x, StrV y) \<Rightarrow>
          if operator_type = ''mul'' then Inr (StrV (concat (replicate (nat x) y)))
          else Inl (Builtin TypeError)
      | _ \<Rightarrow> Inl (Builtin TypeError))"

text \<open>Python's order on two integers or on two texts (by code point).\<close>

fun text_less :: "string \<Rightarrow> string \<Rightarrow> bool" where
  "text_less [] [] = False"
| "text_less [] (y # ys) = True"
| "text_less (x # xs) [] = False"
| "text_less (x # xs) (y # ys) = (code x < code y \<or> (x = y \<and> text_less xs ys))"

definition same_type :: "val \<Rightarrow> val \<Rightarrow> bool" where
  "same_type a b =
     (case (a, b) of
        (IntV x, IntV y) \<Rightarrow> True
      | (StrV x, StrV y) \<Rightarrow> True
      | (FloatV, FloatV) \<Rightarrow> True
      | _ \<Rightarrow> False)"

definition py_less :: "val \<Rightarrow> val \<Rightarrow> bool" where
  "py_less a b =
     (case (a, b) of
        (IntV x, IntV y) \<Rightarrow> x < y
      | (StrV x, StrV y) \<Rightarrow> text_less x y
      | _ \<Rightarrow> False)"

definition finish :: "exn option \<times> Stack \<Rightarrow> machine \<Rightarrow> outcome \<times> machine" where
  "finish r m =
     (case r of
        (None, st) \<Rightarrow> (Completed, m \<lparr> stack := st \<rparr>)
      | (Some e, st) \<Rightarrow> (Raised e, m \<lparr> stack := st \<rparr>))"

definition exec_out :: "codec \<Rightarrow> string \<Rightarrow> machine \<Rightarrow> outcome \<times> machine" where
  "exec_out unicode_escape message m =
     (case process_value unicode_escape (stack m) message of
        Inl e \<Rightarrow> (Raised e, m)
      | Inr v \<Rightarrow>
          (case py_str v of
             Inl e \<Rightarrow> (Raised e, m)
           | Inr text \<Rightarrow> (Completed, m \<lparr> stdout := stdout m @ [text] \<rparr>)))"

definition exec_cls :: "machine \<Rightarrow> outcome \<times> machine" where
  "exec_cls m = (Completed, m \<lparr> stdout := stdout m @ [[CHR 0x1B, CHR ''['', CHR ''2'', CHR ''J'']] \<rparr>)"

definition exec_alc :: "string \<Rightarrow> string \<Rightarrow> machine \<Rightarrow> outcome \<times> machine" where
  "exec_alc variable allocation m =
     (case handle_variable variable_regex variable of
        Inl e \<Rightarrow> (Raised e, m)
      | Inr name \<Rightarrow>
          (case handle_variable allocation_regex allocation of
             Inl e \<Rightarrow> (Raised e, m)
           | Inr digits \<Rightarrow>
               (case py_int digits of
                  Inl e \<Rightarrow> (Raised e, m)
                | Inr sz \<Rightarrow> finish (allocate_variable name sz (stack m)) m)))"

definition exec_inp :: "codec \<Rightarrow> string \<Rightarrow> string \<Rightarrow> machine \<Rightarrow> outcome \<times> machine" where
  "exec_inp unicode_escape prompt variable m =
     (case process_value unicode_escape (stack m) prompt of
        Inl e \<Rightarrow> (Raised e, m)
      | Inr (StrV text) \<Rightarrow>
          (case handle_variable variable_regex variable of
             Inl e \<Rightarrow> (Raised e, m)
           | Inr name \<Rightarrow>
               (let m' = m \<lparr> stdout := stdout m @ [text] \<rparr>
                in case stdin m of
                     [] \<Rightarrow> (Raised (Builtin EOFError), m')
                   | answer # rest \<Rightarrow>
                       finish (write_variable name (StrV answer) False (stack m))
                         (m' \<lparr> stdin := rest \<rparr>)))
      | Inr _ \<Rightarrow> (Raised (Builtin ValueError), m))"

definition exec_arith ::
  "codec \<Rightarrow> string \<Rightarrow> string \<Rightarrow> string \<Rightarrow> string \<Rightarrow> machine \<Rightarrow> outcome \<times> machine" where
  "exec_arith unicode_escape operator_type num1 num2 variable m =
     (case handle_variable variable_regex variable of
        Inl e \<Rightarrow> (Raised e, m)
      | Inr name \<Rightarrow>
          (case process_value unicode_escape (stack m) num1 of
             Inl e \<Rightarrow> (Raised e, m)
           | Inr a \<Rightarrow>
               (case process_value unicode_escape (stack m) num2 of
                  Inl e \<Rightarrow> (Raised e, m)
                | Inr b \<Rightarrow>
                    (case py_operator operator_type a b of
                       Inl e \<Rightarrow> (Raised e, m)
                     | Inr r \<Rightarrow> finish (write_variable name r False (stack m)) m))))"

definition exec_cst :: "string \<Rightarrow> string \<Rightarrow> machine \<Rightarrow> outcome \<times> machine" where
  "exec_cst variable cast_type m =
     (case handle_variable variable_regex variable of
        Inl e \<Rightarrow> (Raised e, m)
      | Inr name \<Rightarrow>
          (case get_variable name (stack m) of
             Inl e \<Rightarrow> (Raised e, m)
           | Inr v \<Rightarrow>
               (case (if cast_type = ''INTEGER'' then map_sum id IntV (py_int_of v)
                      else map_sum id StrV (py_str v)) of
                  Inl e \<Rightarrow> (Raised e, m)
                | Inr converted \<Rightarrow> finish (write_variable name converted False (stack m)) m)))"

text \<open>
  The chain of \<^verbatim>\<open>cmp\<close>, branch by branch as the source has it. When no branch
  applies the result keeps its old value.
\<close>

definition compare :: "val \<Rightarrow> val \<Rightarrow> string option \<Rightarrow> exn + string option" where
  "compare variable1 variable2 old =
     (if variable1 = variable2 then Inr (Some ''jeq'')
      else if variable1 \<noteq> variable2 then Inr (Some ''jne'')
      else if \<not> same_type variable1 variable2 then Inl (Builtin ValueError)
      else if py_less variable2 variable1 then Inr (Some ''jgt'')
      else if py_less variable1 variable2 then Inr (Some ''jlt'')
      else if \<not> py_less variable1 variable2 then Inr (Some ''jge'')
      else if \<not> py_less variable2 variable1 then Inr (Some ''jle'')
      else Inr old)"

definition exec_cmp :: "codec \<Rightarrow> string \<Rightarrow> string \<Rightarrow> machine \<Rightarrow> outcome \<times> machine" where
  "exec_cmp unicode_escape variable1 variable2 m =
     (case process_value unicode_escape (stack m) variable1 of
        Inl e \<Rightarrow> (Raised e, m)
      | Inr a \<Rightarrow>
          (case process_value unicode_escape (stack m) variable2 of
             Inl e \<Rightarrow> (Raised e, m)
           | Inr b \<Rightarrow>
               (case compare a b (comparison_result m) of
                  Inl e \<Rightarrow> (Raised e, m)
                | Inr r \<Rightarrow> (Completed, m \<lparr> comparison_result := r \<rparr>))))"

definition exec_jump :: "Program \<Rightarrow> string \<Rightarrow> string \<Rightarrow> machine \<Rightarrow> outcome \<times> machine" where
  "exec_jump p jump_type label m =
     (if comparison_result m = Some jump_type then
        (case labels p label of
           None \<Rightarrow> (Raised (Builtin KeyError), m)
         | Some target \<Rightarrow> (Jumped, m \<lparr> current_line := target \<rparr>))
      else (Completed, m))"

definition exec_drp :: "string \<Rightarrow> machine \<Rightarrow> outcome \<times> machine" where
  "exec_drp variable m =
     (case handle_variable variable_regex variable of
        Inl e \<Rightarrow> (Raised e, m)
      | Inr name \<Rightarrow> finish (drop_variable name (stack m)) m)"

definition exec_set :: "codec \<Rightarrow> string \<Rightarrow> string \<Rightarrow> machine \<Rightarrow> outcome \<times> machine" where
  "exec_set unicode_escape variable value m =
     (case handle_variable variable_regex variable of
        Inl e \<Rightarrow> (Raised e, m)
      | Inr name \<Rightarrow>
          (case process_value unicode_escape (stack m) value of
             Inl e \<Rightarrow> (Raised e, m)
           | Inr v \<Rightarrow> finish (write_variable name v False (stack m)) m))"

definition jump_types :: "string list" where
  "jump_types = [''jeq'', ''jnq'', ''jgt'', ''jlt'', ''jge'', ''jle'']"

definition operator_types :: "string list" where
  "operator_types = [''add'', ''sub'', ''mul'', ''div'', ''pow'']"

text \<open>
  The \<^verbatim>\<open>match\<close> of the loop body, case by case in the source's order; a pattern
  fixes the number of tokens, so each case starts with the length.
\<close>

definition exec_instr :: "codec \<Rightarrow> Program \<Rightarrow> string list \<Rightarrow> machine \<Rightarrow> outcome \<times> machine" where
  "exec_instr unicode_escape p instr m =
     (let n = length instr; op = hd instr
      in if n = 2 \<and> op = ''out'' then exec_out unicode_escape (instr ! 1) m
         else if n = 2 \<and> op = ''lbl'' then (Completed, m)
         else if n = 1 \<and> op = ''cls'' then exec_cls m
         else if n = 3 \<and> op = ''alc'' then exec_alc (instr ! 1) (instr ! 2) m
         else if n = 4 \<and> op = ''inp'' \<and> instr ! 2 = ''>''
           then exec_inp unicode_escape (instr ! 1) (instr ! 3) m
         else if n = 5 \<and> op \<in> set operator_types \<and> instr ! 3 = ''>''
           then exec_arith unicode_escape op (instr ! 1) (instr ! 2) (instr ! 4) m
         else if n = 3 \<and> op = ''cst'' \<and> (instr ! 2 = ''STRING'' \<or> instr ! 2 = ''INTEGER'')
           then exec_cst (instr ! 1) (instr ! 2) m
         else if n = 3 \<and> op = ''cmp'' then exec_cmp unicode_escape (instr ! 1) (instr ! 2) m
         else if n = 2 \<and> op \<in> set jump_types then exec_jump p op (instr ! 1) m
         else if n = 2 \<and> op = ''drp'' then exec_drp (instr ! 1) m
         else if n = 3 \<and> op = ''set'' then exec_set unicode_escape (instr ! 1) (instr ! 2) m
         else (Raised (Builtin SyntaxError), m))"

text \<open>
  What follows the \<^verbatim>\<open>try\<close>: the privileged write of \<^verbatim>\<open>slx\<close> and the
  increment of the line. It is outside the \<^verbatim>\<open>try\<close>, so an exception of the write
  ends the run.
\<close>

definition write_flag :: "int \<Rightarrow> machine \<Rightarrow> exn option \<times> machine" where
  "write_flag slx_code m =
     (case write_variable ''slx'' (IntV slx_code) True (stack m) of
        (Some e, st) \<Rightarrow> (Some e, m \<lparr> stack := st \<rparr>)
      | (None, st) \<Rightarrow> (None, m \<lparr> stack := st, current_line := current_line m + 1 \<rparr>))"

text \<open>
  One iteration of the loop at a line inside the program. The first component is the
  exception that ends the run, if any.
\<close>

definition step :: "codec \<Rightarrow> Program \<Rightarrow> machine \<Rightarrow> exn option \<times> machine" where
  "step unicode_escape p m =
     (case exec_instr unicode_escape p (lines p ! current_line m) m of
        (Jumped, m') \<Rightarrow> (None, m')
      | (Raised (Stack e), m') \<Rightarrow> (Some (Stack e), m')
      | (Raised (Builtin e), m') \<Rightarrow> write_flag 1 m'
      | (Completed, m') \<Rightarrow> write_flag 0 m')"

text \<open>
  The loop, with fuel since a program may jump for ever: \<open>None\<close> is a run that needs
  more iterations than the fuel allows.
\<close>

fun run :: "codec \<Rightarrow> Program \<Rightarrow> nat \<Rightarrow> machine \<Rightarrow> (exn option \<times> machine) option" where
  "run unicode_escape p 0 m =
     (if current_line m \<ge> length (lines p) then Some (None, m) else None)"
| "run unicode_escape p (Suc fuel) m =
     (if current_line m \<ge> length (lines p) then Some (None, m)
      else case step unicode_escape p m of
             (Some e, m') \<Rightarrow> Some (Some e, m')
           | (None, m') \<Rightarrow> run unicode_escape p fuel m')"

definition initial_machine :: "Program \<Rightarrow> string list \<Rightarrow> machine" where
  "initial_machine p input_lines =
     \<lparr> stack = Stack_init (byte_size p), current_line = 0, comparison_result = None,
       stdin = input_lines, stdout = [] \<rparr>"

text \<open>
  \<^verbatim>\<open>process_file\<close> from the lines of the file on: \<open>Inl\<close> is a failed
  construction, which ends the process before any instruction runs.
\<close>

definition process_file ::
  "codec \<Rightarrow> string list \<Rightarrow> string list \<Rightarrow> nat \<Rightarrow> exn + (exn option \<times> machine) option" where
  "process_file unicode_escape file_lines input_lines fuel =
     (case construct_program file_lines of
        Inl e \<Rightarrow> Inl e
      | Inr p \<Rightarrow> Inr (run unicode_escape p fuel (initial_machine p input_lines)))"

text \<open>
  A codec for concrete runs: on text without a backslash the codec is the identity;
  the runs below contain no backslash, where this one raises.
\<close>

definition plain_codec :: codec where
  "plain_codec s = (if CHR 0x5C \<in> set s then None else Some s)"


section \<open>Notions used to state the properties\<close>


text \<open>Two allocations share no cell; an allocation is a well-formed range of \<open>n\<close> cells.\<close>

definition disjoint :: "Allocation \<Rightarrow> Allocation \<Rightarrow> bool" where
  "disjoint a b = (alloc_end a < alloc_start b \<or> alloc_end b < alloc_start a)"

definition in_arena :: "nat \<Rightarrow> Allocation \<Rightarrow> bool" where
  "in_arena n a =
     (0 \<le> alloc_start a \<and> 1 \<le> alloc_size a \<and> alloc_end a = alloc_start a + alloc_size a - 1
      \<and> alloc_end a < int n)"

fun pairwise_disjoint :: "Allocation list \<Rightarrow> bool" where
  "pairwise_disjoint [] = True"
| "pairwise_disjoint (a # as) = (list_all (disjoint a) as \<and> pairwise_disjoint as)"

text \<open>A sequence of allocations with no drop in between, stopping at the first failure.\<close>

fun allocate_all :: "int list \<Rightarrow> Stack \<Rightarrow> (exn + Allocation list) \<times> Stack" where
  "allocate_all [] st = (Inr [], st)"
| "allocate_all (sz # szs) st =
     (case allocate sz st of
        (Inl e, st') \<Rightarrow> (Inl e, st')
      | (Inr a, st') \<Rightarrow>
          (case allocate_all szs st' of
             (Inl e, st'') \<Rightarrow> (Inl e, st'')
           | (Inr as, st'') \<Rightarrow> (Inr (a # as), st'')))"




text \<open>The allocations that are live: those bound to a name.\<close>

definition live :: "Stack \<Rightarrow> string \<Rightarrow> Allocation option" where
  "live st n = (case vars st n of Some (Register a dt) \<Rightarrow> Some a | _ \<Rightarrow> None)"


definition flag :: "machine \<Rightarrow> binding option" where
  "flag m = vars (stack m) ''slx''"


text \<open>Fixtures: two allocations at the start of an arena, and a text with a NUL character.\<close>

definition two_bytes :: Allocation where
  "two_bytes = \<lparr> alloc_start = 0, alloc_end = 1, alloc_size = 2 \<rparr>"

definition four_bytes :: Allocation where
  "four_bytes = \<lparr> alloc_start = 0, alloc_end = 3, alloc_size = 4 \<rparr>"

definition text_with_nul :: string where
  "text_with_nul = [CHR ''a'', CHR 0x00, CHR ''b'']"


text \<open>
  What a run shows from outside: the exception that ended it (if any), the console
  output, the last comparison result and the error flag. \<open>Inl\<close> is a failed
  construction, \<open>None\<close> a run that outlasts the fuel.
\<close>

definition observe ::
  "exn + (exn option \<times> machine) option \<Rightarrow>
   exn + (exn option \<times> string list \<times> string option \<times> binding option) option" where
  "observe r =
     map_sum id (map_option (\<lambda>(e, m). (e, stdout m, comparison_result m, flag m))) r"

text \<open>A text literal of the language: the body between double quotes.\<close>

definition quoted :: "string \<Rightarrow> string" where
  "quoted s = CHR 0x22 # s @ [CHR 0x22]"

text \<open>
  Programs for the concrete runs. \<open>compare_and_jump\<close> compares 5 with 3 and then
  tries \<^verbatim>\<open>jlt\<close>, \<^verbatim>\<open>jnq\<close> and \<^verbatim>\<open>jgt\<close> to the label \<open>B\<close>; only a fall through
  all three prints 1.
\<close>

definition compare_and_jump :: "string list" where
  "compare_and_jump =
     [''START'',
      ''10 cmp 5 3'',
      ''20 jlt B'',
      ''30 jnq B'',
      ''40 jgt B'',
      ''50 out 1'',
      ''60 lbl B'',
      ''70 out 2'']"

text \<open>
  \<open>overflowing_writes\<close> writes 200, and then a text of two letters, to a variable of
  one byte, printing the error flag in between.
\<close>

definition overflowing_writes :: "string list" where
  "overflowing_writes =
     [''START'',
      ''10 alc &x :[1]'',
      ''20 set &x 200'',
      ''30 out &slx'',
      ''40 set &x '' @ quoted ''ab'',
      ''50 out 2'']"



text \<open>The program a source constructs (the empty program when construction fails).\<close>

definition program_of :: "string list \<Rightarrow> Program" where
  "program_of ls =
     (case construct_program ls of
        Inr p \<Rightarrow> p
      | Inl e \<Rightarrow> \<lparr> program_name = None, byte_size = 0, lines = [], labels = Map.empty \<rparr>)"


section \<open>First-fit allocation\<close>







lemma length_splice:
  "s + length ys \<le> length xs \<Longrightarrow> length (take s xs @ ys @ drop (s + length ys) xs) = length xs"
  by simp




section \<open>Writing and reading back\<close>

lemma length_be_bytes: "length (be_bytes n u) = n"
  by (induction n arbitrary: u) simp_all

lemma from_be_append: "from_be (bs @ [b]) = from_be bs * 256 + b"
  by (simp add: from_be_def)

lemma from_be_be_bytes: "from_be (be_bytes n u) = u mod 256 ^ n"
proof (induction n arbitrary: u)
  case 0
  show ?case by (simp add: from_be_def)
next
  case (Suc n)
  have "from_be (be_bytes (Suc n) u) = (u div 256) mod 256 ^ n * 256 + u mod 256"
    by (simp add: from_be_append Suc)
  also have "\<dots> = u mod 256 ^ Suc n"
    by (simp add: mod_mult2_eq mult.commute)
  finally show ?case .
qed

lemma pow256: "(256::int) ^ n = 2 ^ (8 * n)"
proof -
  have "(256::int) = 2 ^ 8" by simp
  then show ?thesis by (simp only: power_mult)
qed

lemma signed_roundtrip:
  assumes n: "0 < n"
    and lo: "- (2 ^ (8 * n - 1)) \<le> v" and hi: "v < (2::int) ^ (8 * n - 1)"
  shows "from_bytes (be_bytes n (nat (v mod 2 ^ (8 * n)))) = v"
proof -
  let ?M = "(2::int) ^ (8 * n)"
  let ?H = "(2::int) ^ (8 * n - 1)"
  have MH: "?M = 2 * ?H"
  proof -
    have "8 * n = Suc (8 * n - 1)" using n by simp
    then have "?M = 2 ^ Suc (8 * n - 1)" by simp
    then show ?thesis by simp
  qed
  have Hpos: "0 < ?H" by simp
  define u where "u = nat (v mod ?M)"
  have u_int: "int u = v mod ?M" by (simp add: u_def)
  have u_lt: "int u < ?M" unfolding u_int by simp
  have "int (from_be (be_bytes n u)) = int (u mod 256 ^ n)" by (simp add: from_be_be_bytes)
  also have "\<dots> = int u mod 256 ^ n" by (simp add: zmod_int)
  also have "\<dots> = int u mod ?M" by (simp only: pow256)
  also have "\<dots> = int u" using u_lt by simp
  finally have fb: "int (from_be (be_bytes n u)) = int u" .
  show ?thesis
  proof (cases "0 \<le> v")
    case True
    then have "v mod ?M = v" using hi MH Hpos by simp
    then have "int u = v" by (simp add: u_int)
    then show ?thesis
      using hi n fb by (simp add: from_bytes_def length_be_bytes u_def[symmetric] Let_def)
  next
    case False
    then have neg: "v < 0" by simp
    have "v mod ?M = v + ?M"
    proof -
      have "0 \<le> v + ?M" using lo MH Hpos by linarith
      moreover have "v + ?M < ?M" using neg by simp
      ultimately have "(v + ?M) mod ?M = v + ?M" by (rule mod_pos_pos_trivial)
      moreover have "(v + ?M) mod ?M = v mod ?M" by simp
      ultimately show ?thesis by (simp only:)
    qed
    then have iu: "int u = v + ?M" by (simp add: u_int)
    then have "?H \<le> int u" using lo MH Hpos by linarith
    then show ?thesis
      using n fb iu by (simp add: from_bytes_def length_be_bytes u_def[symmetric] Let_def)
  qed
qed

lemma cell_bytes_map_Byte: "cell_bytes (map Byte bs) = Some bs"
  by (induction bs) simp_all

lemma slice_index_nat: "i \<le> n \<Longrightarrow> slice_index n (int i) = i"
  by (simp add: slice_index_def)

lemma slice_get_set:
  assumes "s + length ys \<le> length xs"
  shows "slice_get (slice_set xs (int s) (int (s + length ys)) ys) (int s) (int (s + length ys)) = ys"
proof -
  have a: "slice_index (length xs) (int s) = s"
    using assms by (simp add: slice_index_nat)
  have b: "slice_index (length xs) (int (s + length ys)) = s + length ys"
    using assms by (rule slice_index_nat)
  have set: "slice_set xs (int s) (int (s + length ys)) ys = take s xs @ ys @ drop (s + length ys) xs"
    unfolding slice_set_def a b by (simp add: Let_def)
  have len: "length (take s xs @ ys @ drop (s + length ys) xs) = length xs"
    using assms by simp
  have ts: "length (take s xs) = s" using assms by simp
  show ?thesis
    unfolding set slice_get_def len a b using ts by (simp add: Let_def)
qed


lemma write_alloc_stores:
  assumes a: "in_arena (length (store st)) a"
    and sz: "stack_size st = int (length (store st))"
    and ser: "serialize v (alloc_size a) = Inr bs"
    and len: "length bs = nat (alloc_size a)"
  shows "fst (write_alloc a v st) = None"
    and "slice_get (store (snd (write_alloc a v st))) (alloc_start a) (alloc_end a + 1) = map Byte bs"
proof -
  define s where "s = nat (alloc_start a)"
  let ?ys = "map Byte bs"
  have st: "alloc_start a = int s" using a by (simp add: in_arena_def s_def)
  have en: "alloc_end a + 1 = int (s + length ?ys)"
    using a len by (simp add: in_arena_def s_def)
  have fit: "s + length ?ys \<le> length (store st)"
    using a len unfolding in_arena_def s_def by simp linarith
  have c1: "\<not> int (length bs) > alloc_size a" using len a by (simp add: in_arena_def)
  have c2: "\<not> alloc_end a - 1 > stack_size st" using a sz by (simp add: in_arena_def)
  have w: "write_alloc a v st =
      (None, st \<lparr> store := slice_set (store st) (int s) (int (s + length ?ys)) ?ys \<rparr>)"
    using c1 c2 by (simp add: write_alloc_def ser st en)
  show "fst (write_alloc a v st) = None" by (simp add: w)
  show "slice_get (store (snd (write_alloc a v st))) (alloc_start a) (alloc_end a + 1) = ?ys"
    unfolding w st en using slice_get_set[OF fit] by simp
qed

lemma filter_truthy_bytes:
  "filter truthy (map Byte bs) = map Byte (filter (\<lambda>b. b \<noteq> 0) bs)"
  by (induction bs) (simp_all add: truthy_def)

lemma of_char_eq_0: "(of_char c = (0::nat)) = (c = CHR 0x00)"
proof -
  have "of_char (CHR 0x00) = (0::nat)" by simp
  then show ?thesis by (metis of_char_eq_iff)
qed

lemma filter_codes:
  "map char_of (filter (\<lambda>b. b \<noteq> (0::nat)) (map of_char s)) = filter (\<lambda>c. c \<noteq> CHR 0x00) s"
  by (induction s) (simp_all add: of_char_eq_0)

lemma of_char_pos: "(0 < (of_char c :: nat)) = (c \<noteq> CHR 0x00)"
  using of_char_eq_0[of c] by auto

lemma filter_codes_pos:
  "map char_of (filter ((<) (0::nat)) (map of_char s)) = filter (\<lambda>c. c \<noteq> CHR 0x00) s"
  by (induction s) (simp_all add: of_char_pos)

text \<open>
  C2 (as amended). For an allocation that lies in the arena, writing an integer that
  fits its size in signed two's-complement bytes succeeds and reading with cast
  \<open>INTEGER\<close> gives the integer back; writing an ASCII text no longer than the size
  succeeds and reading with cast \<open>STRING\<close> gives the text without its NUL characters:
  the read drops every zero byte, the padding and any inside the text, so it gives the
  text back when the text holds no NUL character.
\<close>

theorem write_then_get:
  assumes a: "in_arena (length (store st)) a"
    and sz: "stack_size st = int (length (store st))"
  shows "(- (2 ^ (8 * nat (alloc_size a) - 1)) \<le> v \<and> v < 2 ^ (8 * nat (alloc_size a) - 1) \<longrightarrow>
            fst (write_alloc a (IntV v) st) = None
            \<and> get a INTEGER (snd (write_alloc a (IntV v) st)) = Inr (IntV v))
       \<and> (is_ascii s \<and> int (length s) \<le> alloc_size a \<longrightarrow>
            fst (write_alloc a (StrV s) st) = None
            \<and> get a STRING (snd (write_alloc a (StrV s) st)) =
                Inr (StrV (filter (\<lambda>c. c \<noteq> CHR 0x00) s))
            \<and> (CHR 0x00 \<notin> set s \<longrightarrow>
                  get a STRING (snd (write_alloc a (StrV s) st)) = Inr (StrV s)))"
proof (intro conjI impI)
  define n where "n = nat (alloc_size a)"
  have n: "0 < n" "alloc_size a = int n" using a by (simp_all add: in_arena_def n_def)
  {
    assume r: "- (2 ^ (8 * nat (alloc_size a) - 1)) \<le> v \<and> v < 2 ^ (8 * nat (alloc_size a) - 1)"
    let ?bs = "be_bytes n (nat (v mod 2 ^ (8 * n)))"
    have fs: "fits_signed v n"
      using r n(1) by (simp add: fits_signed_def n_def[symmetric])
    have nn: "\<not> alloc_size a < 0" "nat (alloc_size a) = n"
      using a by (simp_all add: in_arena_def n_def)
    have ser: "serialize (IntV v) (alloc_size a) = Inr ?bs"
      using fs nn by (simp add: serialize_def to_bytes_def)
    have len: "length ?bs = nat (alloc_size a)" by (simp add: length_be_bytes n_def)
    note w = write_alloc_stores[OF a sz ser len]
    show "fst (write_alloc a (IntV v) st) = None" by (rule w(1))
    have "from_bytes ?bs = v"
      using r by (intro signed_roundtrip n(1)) (simp_all add: n_def[symmetric])
    then show "get a INTEGER (snd (write_alloc a (IntV v) st)) = Inr (IntV v)"
      by (simp add: get_def w(2) cell_bytes_map_Byte Let_def image_iff)
  }
  {
    assume r: "is_ascii s \<and> int (length s) \<le> alloc_size a"
    let ?bs = "map of_char s @ replicate (nat (alloc_size a - int (length s))) (0::nat)"
    have ser: "serialize (StrV s) (alloc_size a) = Inr ?bs"
      using r by (simp add: serialize_def)
    have len: "length ?bs = nat (alloc_size a)" using r by simp linarith
    note w = write_alloc_stores[OF a sz ser len]
    show "fst (write_alloc a (StrV s) st) = None" by (rule w(1))
    have flt: "filter (\<lambda>b. b \<noteq> 0) ?bs = filter (\<lambda>b. b \<noteq> (0::nat)) (map of_char s)"
      by simp
    have asc: "\<forall>b \<in> set (filter (\<lambda>b. b \<noteq> (0::nat)) (map of_char s)). b < 128"
      using r by (auto simp add: is_ascii_def)
    show g: "get a STRING (snd (write_alloc a (StrV s) st)) =
        Inr (StrV (filter (\<lambda>c. c \<noteq> CHR 0x00) s))"
      unfolding get_def w(2) Let_def filter_truthy_bytes flt
      using asc
      by (simp add: cell_bytes_map_Byte decode_ascii_def filter_codes filter_codes_pos image_iff)
    {
      assume "CHR 0x00 \<notin> set s"
      then have "filter (\<lambda>c. c \<noteq> CHR 0x00) s = s" by (induction s) auto
      then show "get a STRING (snd (write_alloc a (StrV s) st)) = Inr (StrV s)"
        using g by simp
    }
  }
qed

lemma store4: "store (Stack_init 4) = [Free, Free, Free, Free]"
  by (simp add: Stack_init_def numeral_eq_Suc)

lemma size4: "stack_size (Stack_init 4) = 4"
  by (simp add: Stack_init_def)

lemma serialize_minus5: "serialize (IntV (-5)) 2 = Inr [255, 251]"
  by (simp add: serialize_def to_bytes_def fits_signed_def numeral_2_eq_2)

lemma serialize_hi: "serialize (StrV ''hi'') 4 = Inr [104, 105, 0, 0]"
  by (simp add: serialize_def is_ascii_def numeral_2_eq_2)

lemma serialize_nul: "serialize (StrV text_with_nul) 4 = Inr [97, 0, 98, 0]"
  by (simp add: serialize_def is_ascii_def text_with_nul_def)

text \<open>
  The allocations \<open>allocate\<close> gives in a free arena of 4 bytes: \<open>-5\<close> in 2 bytes
  (stored as \<open>FF FB\<close>) and \<open>hi\<close> in 4 bytes (stored with two bytes of padding) read
  back as written.
\<close>

theorem write_then_get_witness:
  "in_arena (length (store (Stack_init 4))) two_bytes
   \<and> in_arena (length (store (Stack_init 4))) four_bytes
   \<and> stack_size (Stack_init 4) = int (length (store (Stack_init 4)))
   \<and> - (2 ^ (8 * nat (alloc_size two_bytes) - 1)) \<le> (-5::int)
   \<and> (-5::int) < 2 ^ (8 * nat (alloc_size two_bytes) - 1)
   \<and> fst (allocate 2 (Stack_init 4)) = Inr two_bytes
   \<and> get two_bytes INTEGER (snd (write_alloc two_bytes (IntV (-5)) (Stack_init 4))) = Inr (IntV (-5))
   \<and> store (snd (write_alloc two_bytes (IntV (-5)) (Stack_init 4))) = [Byte 255, Byte 251, Free, Free]
   \<and> is_ascii ''hi'' \<and> int (length ''hi'') \<le> alloc_size four_bytes \<and> CHR 0x00 \<notin> set ''hi''
   \<and> fst (allocate 4 (Stack_init 4)) = Inr four_bytes
   \<and> get four_bytes STRING (snd (write_alloc four_bytes (StrV ''hi'') (Stack_init 4))) = Inr (StrV ''hi'')
   \<and> store (snd (write_alloc four_bytes (StrV ''hi'') (Stack_init 4))) =
        [Byte 104, Byte 105, Byte 0, Byte 0]"
proof -
  have h1: "in_arena (length (store (Stack_init 4))) two_bytes"
    by (simp add: in_arena_def two_bytes_def store4)
  have h2: "in_arena (length (store (Stack_init 4))) four_bytes"
    by (simp add: in_arena_def four_bytes_def store4)
  have h3: "stack_size (Stack_init 4) = int (length (store (Stack_init 4)))"
    by (simp add: size4 store4)
  have r: "- (2 ^ (8 * nat (alloc_size two_bytes) - 1)) \<le> (-5::int)
           \<and> (-5::int) < 2 ^ (8 * nat (alloc_size two_bytes) - 1)"
    by (simp add: two_bytes_def)
  have t: "is_ascii ''hi'' \<and> int (length ''hi'') \<le> alloc_size four_bytes"
    by (simp add: is_ascii_def four_bytes_def)
  have z: "CHR 0x00 \<notin> set ''hi''" by simp
  have scan2: "allocate_scan 2 (store (Stack_init 4)) 0 0 (-1) = Some 0"
    by (simp add: store4)
  have al2: "fst (allocate 2 (Stack_init 4)) = Inr two_bytes"
    by (simp add: allocate_def scan2 two_bytes_def)
  have scan4: "allocate_scan 4 (store (Stack_init 4)) 0 0 (-1) = Some 0"
    by (simp add: store4)
  have al4: "fst (allocate 4 (Stack_init 4)) = Inr four_bytes"
    by (simp add: allocate_def scan4 four_bytes_def)
  have s2: "store (snd (write_alloc two_bytes (IntV (-5)) (Stack_init 4))) =
      [Byte 255, Byte 251, Free, Free]"
    using serialize_minus5
    by (simp add: write_alloc_def two_bytes_def store4 size4 slice_set_def slice_index_def Let_def)
  have s4: "store (snd (write_alloc four_bytes (StrV ''hi'') (Stack_init 4))) =
      [Byte 104, Byte 105, Byte 0, Byte 0]"
    using serialize_hi
    by (simp add: write_alloc_def four_bytes_def store4 size4 slice_set_def slice_index_def Let_def)
  from write_then_get[OF h1 h3, of "-5" "''hi''"] r
  have g2: "get two_bytes INTEGER (snd (write_alloc two_bytes (IntV (-5)) (Stack_init 4))) =
      Inr (IntV (-5))" by blast
  from write_then_get[OF h2 h3, of 0 "''hi''"] t z
  have g4: "get four_bytes STRING (snd (write_alloc four_bytes (StrV ''hi'') (Stack_init 4))) =
      Inr (StrV ''hi'')" by blast
  show ?thesis using h1 h2 h3 r t z al2 al4 s2 s4 g2 g4 by (simp only: simp_thms)
qed

text \<open>
  A text with a NUL character between two letters does not read back: the read drops
  the zero byte inside the text together with the padding.
\<close>

theorem nul_roundtrip_counterexample:
  "is_ascii text_with_nul \<and> int (length text_with_nul) \<le> alloc_size four_bytes
   \<and> fst (write_alloc four_bytes (StrV text_with_nul) (Stack_init 4)) = None
   \<and> store (snd (write_alloc four_bytes (StrV text_with_nul) (Stack_init 4))) =
        [Byte 97, Byte 0, Byte 98, Byte 0]
   \<and> get four_bytes STRING (snd (write_alloc four_bytes (StrV text_with_nul) (Stack_init 4))) =
        Inr (StrV ''ab'')
   \<and> ''ab'' \<noteq> text_with_nul"
proof -
  have w: "write_alloc four_bytes (StrV text_with_nul) (Stack_init 4) =
      (None, (Stack_init 4) \<lparr> store := [Byte 97, Byte 0, Byte 98, Byte 0] \<rparr>)"
    using serialize_nul
    by (simp add: write_alloc_def four_bytes_def store4 size4 slice_set_def slice_index_def Let_def)
  have g: "get four_bytes STRING ((Stack_init 4) \<lparr> store := [Byte 97, Byte 0, Byte 98, Byte 0] \<rparr>) =
      Inr (StrV ''ab'')"
    by (simp add: get_def four_bytes_def slice_get_def slice_index_def truthy_def
        decode_ascii_def Let_def char_of_eq_iff)
  have a: "is_ascii text_with_nul \<and> int (length text_with_nul) \<le> alloc_size four_bytes"
    by (simp add: is_ascii_def text_with_nul_def four_bytes_def)
  have n: "''ab'' \<noteq> text_with_nul" by (simp add: text_with_nul_def)
  show ?thesis using a n by (simp add: w g)
qed

section \<open>Reserved registers\<close>














section \<open>The engine: what every run preserves\<close>



lemmas exec_defs =
  exec_out_def exec_cls_def exec_alc_def exec_inp_def exec_arith_def exec_cst_def
  exec_cmp_def exec_jump_def exec_drp_def exec_set_def finish_def










section \<open>Evaluating concrete runs\<close>

lemma run_numeral:
  "run dec p (numeral k) m =
     (if current_line m \<ge> length (lines p) then Some (None, m)
      else case step dec p m of
             (Some e, m') \<Rightarrow> Some (Some e, m')
           | (None, m') \<Rightarrow> run dec p (pred_numeral k) m')"
  by (simp add: numeral_eq_Suc)


lemma decimal_numeral:
  "decimal (numeral k) n =
     (if n < 10 then [char_of (48 + n)]
      else decimal (pred_numeral k) (n div 10) @ [char_of (48 + n mod 10)])"
  by (simp add: numeral_eq_Suc)

lemmas text_defs = decimal_numeral char_of_eq_iff
  isnumeric_def isnumeric_char_def is_digit_def is_word_char_def is_space_def is_int_space_def
  code_def strip_chars_def py_int_def py_str_def py_int_of_def max_str_digits_def
  handle_variable_def process_value_def quoted_def plain_codec_def

lemmas variable_defs =
  allocate_variable_def write_variable_def get_variable_def drop_variable_def
  write_alloc_def get_def drop_alloc_def serialize_def to_bytes_def fits_signed_def
  is_ascii_def slice_set_def slice_get_def slice_index_def Stack_init_def

lemmas stack_defs = variable_defs allocate_def

lemma allocate_one_fresh:
  "allocate 1 \<lparr> stack_size = z, vars = v, store = replicate (numeral k) Free \<rparr> =
     (Inr \<lparr> alloc_start = 0, alloc_end = 0, alloc_size = 1 \<rparr>,
      \<lparr> stack_size = z, vars = v, store = ALLOCATED # replicate (pred_numeral k) Free \<rparr>)"
  by (simp add: allocate_def slice_set_def slice_index_def numeral_eq_Suc)

lemmas engine_defs =
  step_def exec_instr_def exec_out_def exec_cls_def exec_alc_def exec_inp_def exec_arith_def
  exec_cst_def exec_cmp_def exec_jump_def exec_drp_def exec_set_def compare_def finish_def
  write_flag_def jump_types_def operator_types_def initial_machine_def flag_def observe_def

lemmas construct_defs =
  construct_program_def process_lines_def construct_tokens_def construct_line_def
  numbered_line_def size_directive_def initial_construction_def program_of_def

lemma construct_compare_and_jump:
  "construct_program compare_and_jump =
     Inr \<lparr> program_name = None, byte_size = 8192,
           lines = [[''cmp'', ''5'', ''3''], [''jlt'', ''B''], [''jnq'', ''B''], [''jgt'', ''B''],
                    [''out'', ''1''], [''lbl'', ''B''], [''out'', ''2'']],
           labels = [''B'' \<mapsto> 5] \<rparr>"
  by (simp add: compare_and_jump_def construct_defs text_defs Let_def)
     (simp add: numeral_eq_Suc)

lemma construct_overflowing_writes:
  "construct_program overflowing_writes =
     Inr \<lparr> program_name = None, byte_size = 8192,
           lines = [[''alc'', ''&x'', '':[1]''], [''set'', ''&x'', ''200''], [''out'', ''&slx''],
                    [''set'', ''&x'', quoted ''ab''], [''out'', ''2'']],
           labels = Map.empty \<rparr>"
  by (simp add: overflowing_writes_def construct_defs text_defs Let_def)



section \<open>Jumps and the error flag\<close>











text \<open>
  C3. The run of \<open>compare_and_jump\<close>: after \<open>cmp 5 3\<close> the comparison result is
  \<open>jne\<close>, and \<open>jlt B\<close>, \<open>jnq B\<close> and \<open>jgt B\<close> all fall through, so the run
  prints 1 and then 2. A jump at \<open>jgt B\<close> would have printed 2 alone.
\<close>

theorem cmp_then_jgt_falls_through:
  "observe (process_file plain_codec compare_and_jump [] 10) =
     Inr (Some (None, [''1'', ''2''], Some ''jne'', Some (ReservedRegister (IntV 0))))"
  by (simp add: process_file_def construct_compare_and_jump run_numeral
      engine_defs text_defs stack_defs Let_def)

text \<open>
  C6. The run of \<open>overflowing_writes\<close>: writing 200 to a variable of one byte is
  recovered (the next instruction prints the flag, 1), and writing a text of two letters
  to it ends the run with \<open>MemoryOverflow\<close> before 2 is printed.
\<close>

theorem integer_overflow_is_recovered:
  "observe (process_file plain_codec overflowing_writes [] 10) =
     Inr (Some (Some (Stack MemoryOverflow), [''1''], None, Some (ReservedRegister (IntV 0))))"
  by (simp add: process_file_def construct_overflowing_writes run_numeral
      engine_defs text_defs variable_defs allocate_one_fresh Let_def)


end
